theory Spec2Isabelle
  imports Complex_Main
begin

section \<open>Exceptions and Python values\<close>

text \<open>
  The source raises plain \<^verbatim>\<open>Exception\<close> objects that differ in their message, and the
  Python runtime raises its own exceptions. Each becomes one constructor:
  \<^item> \<open>UndefinedAtTimeError\<close>: \<^verbatim>\<open>Exception("RandomProcess is not defined at time %s.")\<close>;
  \<^item> \<open>InvalidProcessValueError\<close>: \<^verbatim>\<open>Exception("RandomProcess at time t must be a RV.")\<close>;
  \<^item> \<open>InvalidOverrideValueError\<close>:
    \<^verbatim>\<open>Exception("The value of the process at any time t must be a RV.")\<close>;
  \<^item> \<open>IncompatibleSpaceError\<close>: what \<^verbatim>\<open>check_same\<close> of a probability space raises;
  \<^item> \<open>TypeError\<close>, \<open>AttributeError\<close>, \<open>UnboundLocalError\<close>, \<open>ZeroDivisionError\<close>:
    raised by the interpreter.
\<close>

datatype error =
    UndefinedAtTimeError
  | InvalidProcessValueError
  | InvalidOverrideValueError
  | IncompatibleSpaceError
  | TypeError
  | AttributeError
  | UnboundLocalError
  | ZeroDivisionError

text \<open>
  What a process function may yield at a time: \<^verbatim>\<open>None\<close>, a number, a random variable
  (class \<^verbatim>\<open>RV\<close>, whose module is not part of the sources, hence the type parameter), or any
  other object, kept by its printed form.
\<close>

datatype 'rv pyobj = PNone | Scalar real | RVal 'rv | Other string

text \<open>
  Modelled from the spec: \<^verbatim>\<open>is_scalar\<close> of \<^verbatim>\<open>utils\<close>, a module the sources do not
  contain; the spec separates a scalar from a random variable and from anything else.
\<close>

fun is_scalar :: "'rv pyobj \<Rightarrow> bool" where
  "is_scalar (Scalar _) = True"
| "is_scalar _ = False"

text \<open>\<^verbatim>\<open>isinstance(value, RV)\<close>.\<close>

fun isinstance_RV :: "'rv pyobj \<Rightarrow> bool" where
  "isinstance_RV (RVal _) = True"
| "isinstance_RV _ = False"

section \<open>\<^verbatim>\<open>random_processes.py\<close>\<close>

subsection \<open>Objects, closures and the heap\<close>

text \<open>
  A \<^verbatim>\<open>RandomProcess\<close> is a mutable object: \<^verbatim>\<open>__setitem__\<close> assigns to its attribute
  \<^verbatim>\<open>time_fun\<close>, and the closures built by \<^verbatim>\<open>op_fun\<close> and \<^verbatim>\<open>draw\<close> capture process
  objects (\<^verbatim>\<open>self\<close>, \<^verbatim>\<open>other\<close>) and read \<^verbatim>\<open>self.time_fun\<close> only when they are called.
  So processes live in a heap, a list indexed by reference, and a time function takes,
  besides the time, the means to call \<^verbatim>\<open>p.time_fun(s)\<close> on a process object \<open>p\<close> of the
  current heap. A call yields \<open>Some (Inr v)\<close> when it returns \<open>v\<close>, \<open>Some (Inl e)\<close> when it
  raises \<open>e\<close>, and \<open>None\<close> when the budget of nested calls through process objects is
  used up before an answer is reached.

  Times are compared with \<^verbatim>\<open>==\<close>; they are modelled as real numbers.
\<close>

type_synonym time = real
type_synonym ref = nat
type_synonym 'a res = "(error + 'a) option"
type_synonym 'rv lookup = "ref \<Rightarrow> time \<Rightarrow> 'rv pyobj res"
type_synonym 'rv time_function = "'rv lookup \<Rightarrow> time \<Rightarrow> 'rv pyobj res"

fun bind_res :: "'a res \<Rightarrow> ('a \<Rightarrow> 'b res) \<Rightarrow> 'b res" where
  "bind_res None f = None"
| "bind_res (Some (Inl e)) f = Some (Inl e)"
| "bind_res (Some (Inr x)) f = f x"

text \<open>The sampling frequency \<^verbatim>\<open>fs\<close>: a rate, or \<^verbatim>\<open>inf\<close> for continuous time.\<close>

datatype sampling = Rate real | Continuous

record ('sp, 'rv) RandomProcess =
  probSpace :: 'sp
  fs :: sampling
  time_fun :: "'rv time_function"

type_synonym ('sp, 'rv) heap = "('sp, 'rv) RandomProcess list"

text \<open>The default of \<^verbatim>\<open>__init__\<close>: \<^verbatim>\<open>time_fun=lambda t: None\<close>.\<close>

definition default_time_fun :: "'rv time_function" where
  "default_time_fun = (\<lambda>lk t. Some (Inr PNone))"

text \<open>\<^verbatim>\<open>p.time_fun(t)\<close> in heap \<open>h\<close>, with a budget of \<open>k\<close> nested calls.\<close>

fun call_time_fun :: "nat \<Rightarrow> ('sp, 'rv) heap \<Rightarrow> ref \<Rightarrow> time \<Rightarrow> 'rv pyobj res" where
  "call_time_fun 0 h p t = None"
| "call_time_fun (Suc k) h p t =
     (if p < length h then time_fun (h ! p) (call_time_fun k h) t
      else Some (Inl AttributeError))"

text \<open>\<^verbatim>\<open>__getitem__\<close>: \<^verbatim>\<open>return self.time_fun(t)\<close>.\<close>

definition getitem :: "nat \<Rightarrow> ('sp, 'rv) heap \<Rightarrow> ref \<Rightarrow> time \<Rightarrow> 'rv pyobj res" where
  "getitem k h self t = call_time_fun k h self t"

text \<open>
  \<^verbatim>\<open>__setitem__\<close>. \<^verbatim>\<open>deepcopy\<close> of a function returns that function, so
  \<^verbatim>\<open>time_fun_copy\<close> is the function the process had. The method assigns the new closure to
  \<^verbatim>\<open>self.time_fun\<close> and returns nothing: the result is the heap after the call.
\<close>

definition setitem ::
  "('sp, 'rv) heap \<Rightarrow> ref \<Rightarrow> time \<Rightarrow> 'rv pyobj \<Rightarrow> error + ('sp, 'rv) heap" where
  "setitem h self t val =
     (if isinstance_RV val \<or> is_scalar val then
        (let time_fun_copy = time_fun (h ! self);
             time_fun_new = (\<lambda>lk s. if s = t then Some (Inr val) else time_fun_copy lk s)
         in Inr (h[self := (h ! self)\<lparr>time_fun := time_fun_new\<rparr>]))
      else Inl InvalidOverrideValueError)"

subsection \<open>What the module takes from outside\<close>

text \<open>
  The random generator of numpy, the class \<^verbatim>\<open>RV\<close> and the probability spaces are not
  part of the sources. They are parameters:
  \<^item> \<open>randint\<close>: \<^verbatim>\<open>np.random.randint(1e9)\<close>, the integer drawn and the generator after it;
  \<^item> \<open>seed\<close>: \<^verbatim>\<open>np.random.seed(seed)\<close>, the generator state a seed determines;
  \<^item> \<open>RV_draw\<close>: \<^verbatim>\<open>RV.draw()\<close>, the value drawn and the generator after it;
  \<^item> \<open>RV_probSpace\<close>: the attribute \<^verbatim>\<open>probSpace\<close> of a random variable;
  \<^item> \<open>isCompatibleWith\<close>: whether two probability spaces are compatible;
  \<^item> \<open>object_add\<close>: \<^verbatim>\<open>x + y\<close> when \<open>x\<close> and \<open>y\<close> are not both numbers.
\<close>

record ('g, 'sp, 'rv) externals =
  randint :: "'g \<Rightarrow> int \<times> 'g"
  seed :: "int \<Rightarrow> 'g"
  RV_draw :: "'rv \<Rightarrow> 'g \<Rightarrow> 'rv pyobj \<times> 'g"
  RV_probSpace :: "'rv \<Rightarrow> 'sp"
  isCompatibleWith :: "'sp \<Rightarrow> 'sp \<Rightarrow> bool"
  object_add :: "'rv pyobj \<Rightarrow> 'rv pyobj \<Rightarrow> error + 'rv pyobj"

text \<open>
  Modelled from the spec: \<^verbatim>\<open>check_same\<close> of a probability space, whose module the sources
  do not contain. The spec: combining two processes requires compatible probability
  spaces and fails with \<open>IncompatibleSpaceError\<close> otherwise.
\<close>

definition check_same :: "('sp \<Rightarrow> 'sp \<Rightarrow> bool) \<Rightarrow> 'sp \<Rightarrow> 'sp \<Rightarrow> error + unit" where
  "check_same compatible sp sp' =
     (if compatible sp sp' then Inr () else Inl IncompatibleSpaceError)"

subsection \<open>Operators\<close>

text \<open>The right operand of an operator: a value, or a process object.\<close>

datatype 'rv operand = Obj "'rv pyobj" | Process ref

text \<open>\<^verbatim>\<open>other.probSpace\<close>: processes and random variables have the attribute.\<close>

fun attr_probSpace ::
  "('g, 'sp, 'rv) externals \<Rightarrow> ('sp, 'rv) heap \<Rightarrow> 'rv operand \<Rightarrow> error + 'sp" where
  "attr_probSpace ext h (Process q) = Inr (probSpace (h ! q))"
| "attr_probSpace ext h (Obj (RVal rv)) = Inr (RV_probSpace ext rv)"
| "attr_probSpace ext h (Obj _) = Inl AttributeError"

fun operand_is_scalar :: "'rv operand \<Rightarrow> bool" where
  "operand_is_scalar (Obj v) = is_scalar v"
| "operand_is_scalar (Process q) = False"

definition check_same_probSpace ::
  "('g, 'sp, 'rv) externals \<Rightarrow> ('sp, 'rv) heap \<Rightarrow> ref \<Rightarrow> 'rv operand \<Rightarrow> error + unit" where
  "check_same_probSpace ext h self other =
     (if operand_is_scalar other then Inr ()
      else (case attr_probSpace ext h other of
              Inl e \<Rightarrow> Inl e
            | Inr sp \<Rightarrow> check_same (isCompatibleWith ext) (probSpace (h ! self)) sp))"

text \<open>
  \<^verbatim>\<open>RandomProcess(self.probSpace, self.fs, time_fun)\<close>: a new object at the end of the
  heap; its reference and the heap with it.
\<close>

definition new_RandomProcess ::
  "('sp, 'rv) heap \<Rightarrow> 'sp \<Rightarrow> sampling \<Rightarrow> 'rv time_function \<Rightarrow> ref \<times> ('sp, 'rv) heap" where
  "new_RandomProcess h sp f tf =
     (length h, h @ [\<lparr>probSpace = sp, fs = f, time_fun = tf\<rparr>])"

text \<open>
  \<^verbatim>\<open>op_fun\<close> of \<^verbatim>\<open>_operation_factory\<close>. The three closures \<^verbatim>\<open>time_fun\<close> call
  \<^verbatim>\<open>self.time_fun(t)\<close> (and \<^verbatim>\<open>other.time_fun(t)\<close>) on the captured objects, left operand
  first. When no branch defines \<^verbatim>\<open>time_fun\<close>, the \<^verbatim>\<open>return\<close> raises.
\<close>

definition op_fun ::
  "('rv pyobj \<Rightarrow> 'rv pyobj \<Rightarrow> error + 'rv pyobj) \<Rightarrow> ('g, 'sp, 'rv) externals \<Rightarrow>
   ('sp, 'rv) heap \<Rightarrow> ref \<Rightarrow> 'rv operand \<Rightarrow> error + ref \<times> ('sp, 'rv) heap" where
  "op_fun op ext h self other =
     (case check_same_probSpace ext h self other of
        Inl e \<Rightarrow> Inl e
      | Inr _ \<Rightarrow>
         (case other of
            Obj v \<Rightarrow>
              if is_scalar v then
                Inr (new_RandomProcess h (probSpace (h ! self)) (fs (h ! self))
                       (\<lambda>lk t. bind_res (lk self t) (\<lambda>a. Some (op a v))))
              else if isinstance_RV v then
                Inr (new_RandomProcess h (probSpace (h ! self)) (fs (h ! self))
                       (\<lambda>lk t. bind_res (lk self t) (\<lambda>a. Some (op a v))))
              else Inl UnboundLocalError
          | Process q \<Rightarrow>
              Inr (new_RandomProcess h (probSpace (h ! self)) (fs (h ! self))
                     (\<lambda>lk t. bind_res (lk self t) (\<lambda>a.
                              bind_res (lk q t) (\<lambda>b. Some (op a b)))))))"

definition operation_factory ::
  "('rv pyobj \<Rightarrow> 'rv pyobj \<Rightarrow> error + 'rv pyobj) \<Rightarrow> ('g, 'sp, 'rv) externals \<Rightarrow>
   ('sp, 'rv) heap \<Rightarrow> ref \<Rightarrow> 'rv operand \<Rightarrow> error + ref \<times> ('sp, 'rv) heap" where
  "operation_factory op = op_fun op"

text \<open>\<^verbatim>\<open>lambda x, y: x + y\<close>: the sum of two numbers, or what the objects define.\<close>

definition py_add ::
  "('g, 'sp, 'rv) externals \<Rightarrow> 'rv pyobj \<Rightarrow> 'rv pyobj \<Rightarrow> error + 'rv pyobj" where
  "py_add ext x y =
     (case (x, y) of
        (Scalar a, Scalar b) \<Rightarrow> Inr (Scalar (a + b))
      | _ \<Rightarrow> object_add ext x y)"

text \<open>\<^verbatim>\<open>__add__\<close>.\<close>

definition add ::
  "('g, 'sp, 'rv) externals \<Rightarrow> ('sp, 'rv) heap \<Rightarrow> ref \<Rightarrow> 'rv operand \<Rightarrow>
   error + ref \<times> ('sp, 'rv) heap" where
  "add ext h self other = operation_factory (py_add ext) ext h self other"

subsection \<open>Sampling\<close>

text \<open>
  One evaluation of \<^verbatim>\<open>self[t]\<close> inside \<^verbatim>\<open>f\<close>: its exception, or the exhausted
  budget, ends \<^verbatim>\<open>f\<close>; its value goes on to what follows.
\<close>

definition with_self_t :: "'a res \<Rightarrow> 'g \<Rightarrow> ('a \<Rightarrow> 'b res \<times> 'g) \<Rightarrow> 'b res \<times> 'g" where
  "with_self_t r g cont =
     (case r of
        None \<Rightarrow> (None, g)
      | Some (Inl e) \<Rightarrow> (Some (Inl e), g)
      | Some (Inr v) \<Rightarrow> cont v)"

text \<open>\<^verbatim>\<open>self[t].draw()\<close>: only a random variable has the method.\<close>

fun call_draw ::
  "('g, 'sp, 'rv) externals \<Rightarrow> 'rv pyobj \<Rightarrow> 'g \<Rightarrow> 'rv pyobj res \<times> 'g" where
  "call_draw ext (RVal rv) g = (let (x, g1) = RV_draw ext rv g in (Some (Inr x), g1))"
| "call_draw ext _ g = (Some (Inl AttributeError), g)"

text \<open>
  The closure \<^verbatim>\<open>f\<close> that \<^verbatim>\<open>draw\<close> returns, for the seed \<open>sd\<close> it captured. It is called
  with the heap and the generator of the moment of the call; it yields its outcome and
  the generator it leaves behind. It first resets the generator to the seed. The source
  evaluates \<^verbatim>\<open>self[t]\<close> once for each test and once more for the result, as here; a time
  function does not touch the generator, so each evaluation is \<open>getitem k h self t\<close>.
\<close>

definition draw_f ::
  "('g, 'sp, 'rv) externals \<Rightarrow> ref \<Rightarrow> int \<Rightarrow> nat \<Rightarrow> ('sp, 'rv) heap \<Rightarrow> 'g \<Rightarrow> time \<Rightarrow>
   'rv pyobj res \<times> 'g" where
  "draw_f ext self sd k h g t =
     (let g0 = seed ext sd;
          self_t = getitem k h self t
      in with_self_t self_t g0 (\<lambda>a.
           if a = PNone then (Some (Inl UndefinedAtTimeError), g0)
           else with_self_t self_t g0 (\<lambda>b.
             if is_scalar b then with_self_t self_t g0 (\<lambda>r. (Some (Inr r), g0))
             else with_self_t self_t g0 (\<lambda>c.
               if isinstance_RV c then with_self_t self_t g0 (\<lambda>d. call_draw ext d g0)
               else (Some (Inl InvalidProcessValueError), g0)))))"

text \<open>\<^verbatim>\<open>draw\<close>: one seed from the generator, and the closure over it.\<close>

definition draw ::
  "('g, 'sp, 'rv) externals \<Rightarrow> ref \<Rightarrow> 'g \<Rightarrow>
   (nat \<Rightarrow> ('sp, 'rv) heap \<Rightarrow> 'g \<Rightarrow> time \<Rightarrow> 'rv pyobj res \<times> 'g) \<times> 'g" where
  "draw ext self g = (let (sd, g') = randint ext g in (draw_f ext self sd, g'))"

section \<open>\<^verbatim>\<open>poisson_process.py\<close>\<close>






section \<open>\<^verbatim>\<open>results.py\<close>\<close>

subsection \<open>The classes\<close>

text \<open>
  \<^verbatim>\<open>Results\<close> is a subclass of \<^verbatim>\<open>list\<close>; \<^verbatim>\<open>RVResults\<close> and
  \<^verbatim>\<open>RandomProcessResults\<close> are subclasses of \<^verbatim>\<open>Results\<close>, the latter with the
  attribute \<^verbatim>\<open>timeIndex\<close>. An object is its class, its elements in order and, for a
  \<^verbatim>\<open>RandomProcessResults\<close>, its time index.
\<close>

datatype class_name = Results | RVResults | RandomProcessResults

record ('a, 'ti) results_object =
  class_of :: class_name
  elems :: "'a list"
  timeIndex :: "'ti option"

text \<open>
  A generator expression \<^verbatim>\<open>(fun(x) for x in self)\<close>, consumed from left to right: the
  values, or the first exception \<^verbatim>\<open>fun\<close> raises.
\<close>

fun generate :: "('a \<Rightarrow> error + 'b) \<Rightarrow> 'a list \<Rightarrow> error + 'b list" where
  "generate f [] = Inr []"
| "generate f (x # xs) =
     (case f x of
        Inl e \<Rightarrow> Inl e
      | Inr y \<Rightarrow> (case generate f xs of Inl e \<Rightarrow> Inl e | Inr ys \<Rightarrow> Inr (y # ys)))"

text \<open>
  The call \<^verbatim>\<open>cls(results, *extra)\<close>. \<^verbatim>\<open>Results.__init__(self, results)\<close>, which
  \<^verbatim>\<open>RVResults\<close> inherits, takes one argument;
  \<^verbatim>\<open>RandomProcessResults.__init__(self, results, timeIndex)\<close> takes two. Python binds the
  arguments before it runs the body, so a call with the wrong number of arguments raises
  \<^verbatim>\<open>TypeError\<close> before the generator \<open>results\<close> is consumed.
\<close>

definition new_results ::
  "class_name \<Rightarrow> error + 'a list \<Rightarrow> 'ti list \<Rightarrow> error + ('a, 'ti) results_object" where
  "new_results cls results extra =
     (case cls of
        RandomProcessResults \<Rightarrow>
          (case extra of
             [ti] \<Rightarrow>
               (case results of
                  Inl e \<Rightarrow> Inl e
                | Inr xs \<Rightarrow> Inr \<lparr>class_of = cls, elems = xs, timeIndex = Some ti\<rparr>)
           | _ \<Rightarrow> Inl TypeError)
      | _ \<Rightarrow>
          (case extra of
             [] \<Rightarrow>
               (case results of
                  Inl e \<Rightarrow> Inl e
                | Inr xs \<Rightarrow> Inr \<lparr>class_of = cls, elems = xs, timeIndex = None\<rparr>)
           | _ \<Rightarrow> Inl TypeError))"

text \<open>\<^verbatim>\<open>apply\<close>: \<^verbatim>\<open>return type(self)(fun(x) for x in self)\<close>.\<close>

definition Results_apply ::
  "('a, 'ti) results_object \<Rightarrow> ('a \<Rightarrow> error + 'b) \<Rightarrow> error + ('b, 'ti) results_object" where
  "Results_apply self f = new_results (class_of self) (generate f (elems self)) []"

text \<open>
  \<^verbatim>\<open>get\<close>: the loop over \<^verbatim>\<open>enumerate(self)\<close> returns at the first \<open>j\<close> equal to \<open>i\<close>;
  when the loop ends the method returns \<^verbatim>\<open>None\<close>, here \<open>None\<close>.
\<close>

fun get_loop :: "(nat \<times> 'a) list \<Rightarrow> int \<Rightarrow> 'a option" where
  "get_loop [] i = None"
| "get_loop ((j, x) # rest) i = (if int j = i then Some x else get_loop rest i)"

definition get :: "('a, 'ti) results_object \<Rightarrow> int \<Rightarrow> 'a option" where
  "get self i = get_loop (enumerate 0 (elems self)) i"

subsection \<open>Counting outcomes\<close>

text \<open>
  The outcomes that \<^verbatim>\<open>_get_counts\<close> tells apart: numbers and strings, tuples, lists,
  objects hashed by identity (a sample path is a function), and objects whose class sets
  \<^verbatim>\<open>__hash__\<close> to \<^verbatim>\<open>None\<close> (a dict, a set, an array), kept by their printed form.
\<close>

datatype pyval =
    Num real
  | Str string
  | Tuple "pyval list"
  | PyList "pyval list"
  | Opaque nat
  | Unhashable string

text \<open>
  \<^verbatim>\<open>is_hashable\<close>: \<^verbatim>\<open>x.__hash__ is not None\<close>. The test looks at the class of \<open>x\<close> only:
  a tuple passes it whatever it holds.
\<close>

fun is_hashable :: "pyval \<Rightarrow> bool" where
  "is_hashable (PyList _) = False"
| "is_hashable (Unhashable _) = False"
| "is_hashable _ = True"

text \<open>
  Whether \<^verbatim>\<open>hash(x)\<close> returns: the hash of a tuple hashes every component. A dict
  hashes a key when it looks it up or stores it, and raises \<^verbatim>\<open>TypeError\<close> otherwise.
\<close>

fun hashable :: "pyval \<Rightarrow> bool" where
  "hashable (Num _) = True"
| "hashable (Str _) = True"
| "hashable (Opaque _) = True"
| "hashable (Tuple xs) = list_all hashable xs"
| "hashable (PyList _) = False"
| "hashable (Unhashable _) = False"

text \<open>
  The key \<open>y\<close> under which \<^verbatim>\<open>_get_counts\<close> counts \<open>x\<close>; \<open>str\<close> is Python's
  \<^verbatim>\<open>str\<close>.
\<close>

definition count_key :: "(pyval \<Rightarrow> string) \<Rightarrow> pyval \<Rightarrow> pyval" where
  "count_key str x =
     (if is_hashable x then x
      else (case x of
              PyList xs \<Rightarrow> if list_all is_hashable xs then Tuple xs else Str (str x)
            | _ \<Rightarrow> Str (str x)))"

text \<open>
  The dict \<^verbatim>\<open>counts\<close> is a list of keys with their counts, in the order of first
  insertion. \<^verbatim>\<open>counts[y] += 1\<close>:
\<close>

definition increment :: "pyval \<Rightarrow> (pyval \<times> nat) list \<Rightarrow> (pyval \<times> nat) list" where
  "increment y counts = map (\<lambda>(k, c). if k = y then (k, c + 1) else (k, c)) counts"

fun get_counts_loop ::
  "(pyval \<Rightarrow> string) \<Rightarrow> pyval list \<Rightarrow> (pyval \<times> nat) list \<Rightarrow> error + (pyval \<times> nat) list" where
  "get_counts_loop str [] counts = Inr counts"
| "get_counts_loop str (x # xs) counts =
     (let y = count_key str x in
      if \<not> hashable y then Inl TypeError
      else if y \<in> fst ` set counts then get_counts_loop str xs (increment y counts)
      else get_counts_loop str xs (counts @ [(y, 1)]))"

definition get_counts ::
  "(pyval \<Rightarrow> string) \<Rightarrow> (pyval, 'ti) results_object \<Rightarrow> error + (pyval \<times> nat) list" where
  "get_counts str self = get_counts_loop str (elems self) []"

text \<open>
  Modelled from the spec: the class \<^verbatim>\<open>Table\<close> of \<^verbatim>\<open>table\<close>, a module the sources do
  not contain. The spec: the table counts the occurrences of each distinct outcome; if
  \<open>outcomes\<close> is supplied, the table must include zero-count entries for outcomes
  absent from the ensemble. A table is a list of outcomes with their values: the
  counted outcomes in the order of the dict, then the supplied outcomes that were not
  counted, with the value 0.
\<close>

type_synonym table = "(pyval \<times> real) list"

definition Table :: "(pyval \<times> nat) list \<Rightarrow> pyval list option \<Rightarrow> table" where
  "Table hash_map outcomes =
     map (\<lambda>(k, c). (k, real c)) hash_map @
     (case outcomes of
        None \<Rightarrow> []
      | Some ks \<Rightarrow> map (\<lambda>k. (k, 0)) (filter (\<lambda>k. k \<notin> fst ` set hash_map) (remdups ks)))"

text \<open>
  Modelled from the spec: the division \<^verbatim>\<open>table / len(self)\<close> of a \<^verbatim>\<open>Table\<close>, from the
  same missing module. The spec: \<open>normalize\<close> divides counts by \<open>n\<close>. The spec
  says nothing about a division by zero; the model lets it raise, as Python's division
  does.
\<close>

definition Table_truediv :: "table \<Rightarrow> nat \<Rightarrow> error + table" where
  "Table_truediv tbl n =
     (if n = 0 then Inl ZeroDivisionError
      else Inr (map (\<lambda>(k, v). (k, v / real n)) tbl))"

text \<open>\<^verbatim>\<open>tabulate\<close>; \<open>normalise\<close> is its argument \<^verbatim>\<open>normalize\<close>.\<close>

definition tabulate ::
  "(pyval \<Rightarrow> string) \<Rightarrow> (pyval, 'ti) results_object \<Rightarrow> pyval list option \<Rightarrow> bool \<Rightarrow>
   error + table" where
  "tabulate str self outcomes normalise =
     (case get_counts str self of
        Inl e \<Rightarrow> Inl e
      | Inr counts \<Rightarrow>
          (let tbl = Table counts outcomes in
           if normalise then Table_truediv tbl (length (elems self)) else Inr tbl))"

text \<open>The sum of the values of a table.\<close>

definition table_total :: "table \<Rightarrow> real" where
  "table_total tbl = sum_list (map snd tbl)"

text \<open>
  How many outcomes of \<open>xs\<close> are counted under the key \<open>y\<close>, and the count a dict
  holds for a key (0 when the key is absent).
\<close>

definition occurrences :: "(pyval \<Rightarrow> string) \<Rightarrow> pyval list \<Rightarrow> pyval \<Rightarrow> nat" where
  "occurrences str xs y = length (filter (\<lambda>x. count_key str x = y) xs)"

definition count_of :: "(pyval \<times> nat) list \<Rightarrow> pyval \<Rightarrow> nat" where
  "count_of counts y = (case map_of counts y of None \<Rightarrow> 0 | Some c \<Rightarrow> c)"

text \<open>
  The outcomes of the data model of an ensemble (scalars, fixed-length tuples or vectors
  of scalars, sample paths), and with them any object of a class without a hash: an
  atom is a number, a string or an object hashed by identity.
\<close>

fun is_atom :: "pyval \<Rightarrow> bool" where
  "is_atom (Num _) = True"
| "is_atom (Str _) = True"
| "is_atom (Opaque _) = True"
| "is_atom _ = False"

fun data_model_outcome :: "pyval \<Rightarrow> bool" where
  "data_model_outcome (Tuple xs) = list_all is_atom xs"
| "data_model_outcome (PyList xs) = list_all is_atom xs"
| "data_model_outcome _ = True"

subsection \<open>Simulation (\<^verbatim>\<open>RandomProcess.sim\<close>)\<close>

text \<open>
  \<^verbatim>\<open>sim\<close>: \<^verbatim>\<open>RandomProcessResults([self.draw() for _ in range(n)], self.fs)\<close>. The
  list comprehension is \<open>sim_draws\<close>, which threads the generator through the
  draws.
\<close>

fun sim_draws ::
  "('g, 'sp, 'rv) externals \<Rightarrow> ref \<Rightarrow> nat \<Rightarrow> 'g \<Rightarrow>
   (nat \<Rightarrow> ('sp, 'rv) heap \<Rightarrow> 'g \<Rightarrow> time \<Rightarrow> 'rv pyobj res \<times> 'g) list \<times> 'g" where
  "sim_draws ext self 0 g = ([], g)"
| "sim_draws ext self (Suc n) g =
     (let (f, g1) = draw ext self g;
          (fs, g2) = sim_draws ext self n g1
      in (f # fs, g2))"

definition sim ::
  "('g, 'sp, 'rv) externals \<Rightarrow> ('sp, 'rv) heap \<Rightarrow> ref \<Rightarrow> nat \<Rightarrow> 'g \<Rightarrow>
   (error + (nat \<Rightarrow> ('sp, 'rv) heap \<Rightarrow> 'g \<Rightarrow> time \<Rightarrow> 'rv pyobj res \<times> 'g, sampling)
      results_object) \<times> 'g" where
  "sim ext h self n g =
     (let (paths, g') = sim_draws ext self n g
      in (new_results RandomProcessResults (Inr paths) [fs (h ! self)], g'))"

section \<open>Example data\<close>

text \<open>
  Concrete inputs on which the theorems below are evaluated. The generator is a
  counter; a random variable \<open>rv\<close> drawn from generator \<open>g\<close> yields \<open>rv + g\<close>;
  probability spaces are numbers, compatible when equal.
\<close>

definition example_ext :: "(nat, nat, nat) externals" where
  "example_ext =
     \<lparr>randint = (\<lambda>g. (int g, Suc g)),
      seed = (\<lambda>s. nat s),
      RV_draw = (\<lambda>rv g. (Scalar (real (rv + g)), Suc g)),
      RV_probSpace = (\<lambda>rv. 0),
      isCompatibleWith = (\<lambda>sp sp'. sp = sp'),
      object_add = (\<lambda>x y. Inl TypeError)\<rparr>"

text \<open>
  Five processes: one that is defined nowhere (the default time function), one that
  yields the time itself, one that yields a random variable and lives on another
  probability space, one that yields a string, and one that is constantly 2.
\<close>

definition example_heap :: "(nat, nat) heap" where
  "example_heap =
     [\<lparr>probSpace = 0, fs = Rate 1, time_fun = default_time_fun\<rparr>,
      \<lparr>probSpace = 0, fs = Continuous, time_fun = (\<lambda>lk t. Some (Inr (Scalar t)))\<rparr>,
      \<lparr>probSpace = 1, fs = Rate 1, time_fun = (\<lambda>lk t. Some (Inr (RVal 7)))\<rparr>,
      \<lparr>probSpace = 0, fs = Rate 1, time_fun = (\<lambda>lk t. Some (Inr (Other ''abc'')))\<rparr>,
      \<lparr>probSpace = 0, fs = Rate 1, time_fun = (\<lambda>lk t. Some (Inr (Scalar 2)))\<rparr>]"

text \<open>
  An ensemble of four outcomes, one of them a list; an ensemble of three integers; an
  ensemble whose one outcome is a tuple that holds a list; and a stand-in for Python's
  \<^verbatim>\<open>str\<close>.
\<close>

definition example_results :: "(pyval, unit) results_object" where
  "example_results =
     \<lparr>class_of = Results, elems = [Num 1, Num 2, Num 1, PyList [Num 1]], timeIndex = None\<rparr>"

definition example_numbers :: "(int, unit) results_object" where
  "example_numbers = \<lparr>class_of = RVResults, elems = [10, 20, 30], timeIndex = None\<rparr>"

definition tuple_with_list :: "(pyval, unit) results_object" where
  "tuple_with_list =
     \<lparr>class_of = Results, elems = [Tuple [Num 1, PyList [Num 2]]], timeIndex = None\<rparr>"

definition example_str :: "pyval \<Rightarrow> string" where
  "example_str x = ''<object>''"

section \<open>The counting function of the Poisson process\<close>



















section \<open>Overrides, operators and sampling of a random process\<close>

text \<open>
  The closure, with its evaluations of \<^verbatim>\<open>self[t]\<close> merged into one: what it does for
  each kind of value the process function yields.
\<close>

lemma draw_f_unfold:
  "draw_f ext self sd k h g t =
     (case getitem k h self t of
        None \<Rightarrow> (None, seed ext sd)
      | Some (Inl e) \<Rightarrow> (Some (Inl e), seed ext sd)
      | Some (Inr v) \<Rightarrow>
          (case v of
             PNone \<Rightarrow> (Some (Inl UndefinedAtTimeError), seed ext sd)
           | Scalar x \<Rightarrow> (Some (Inr v), seed ext sd)
           | RVal rv \<Rightarrow>
               (Some (Inr (fst (RV_draw ext rv (seed ext sd)))),
                snd (RV_draw ext rv (seed ext sd)))
           | Other s \<Rightarrow> (Some (Inl InvalidProcessValueError), seed ext sd)))"
  by (simp add: draw_f_def with_self_t_def Let_def
      split: option.splits sum.splits pyobj.splits prod.splits)

lemma setitem_valid:
  assumes "isinstance_RV val \<or> is_scalar val"
  shows "setitem h self t val =
         Inr (h[self := (h ! self)\<lparr>time_fun :=
                (\<lambda>lk s. if s = t then Some (Inr val) else time_fun (h ! self) lk s)\<rparr>])"
  using assms by (simp add: setitem_def)

lemma getitem_after_setitem:
  assumes "self < length h" and "setitem h self t val = Inr h'"
  shows "getitem (Suc k) h' self s =
         (if s = t then Some (Inr val) else time_fun (h ! self) (call_time_fun k h') s)"
  using assms by (auto simp: setitem_def getitem_def Let_def split: if_splits)

text \<open>
  Claim C1, as amended. For every process, time \<open>t\<close> and value \<open>v\<close> that is a scalar or
  a random variable, the override \<^verbatim>\<open>process[t] = v\<close> creates no new process: it replaces
  the function of the process it is applied to, in place, by a closure that returns
  \<open>v\<close> at exactly \<open>t\<close> and defers to the prior function elsewhere. The heap keeps its
  size, every other process object is unchanged, and so are the probability space and the
  sampling frequency of the process. For any other value the override raises.
\<close>

theorem setitem_updates_in_place:
  assumes "self < length h"
  shows "(isinstance_RV val \<or> is_scalar val \<longrightarrow>
            (\<exists>h'. setitem h self t val = Inr h' \<and> length h' = length h \<and>
                  (\<forall>p. p \<noteq> self \<longrightarrow> h' ! p = h ! p) \<and>
                  probSpace (h' ! self) = probSpace (h ! self) \<and>
                  fs (h' ! self) = fs (h ! self) \<and>
                  (\<forall>k s. getitem (Suc k) h' self s =
                     (if s = t then Some (Inr val)
                      else time_fun (h ! self) (call_time_fun k h') s)))) \<and>
         (\<not> (isinstance_RV val \<or> is_scalar val) \<longrightarrow>
            setitem h self t val = Inl InvalidOverrideValueError)"
proof (intro conjI impI)
  assume v: "isinstance_RV val \<or> is_scalar val"
  define h' where "h' = h[self := (h ! self)\<lparr>time_fun :=
                (\<lambda>lk s. if s = t then Some (Inr val) else time_fun (h ! self) lk s)\<rparr>]"
  have s: "setitem h self t val = Inr h'"
    unfolding h'_def by (rule setitem_valid[OF v])
  have "length h' = length h" by (simp add: h'_def)
  moreover have "\<forall>p. p \<noteq> self \<longrightarrow> h' ! p = h ! p" by (simp add: h'_def)
  moreover have "probSpace (h' ! self) = probSpace (h ! self)" "fs (h' ! self) = fs (h ! self)"
    using assms by (simp_all add: h'_def)
  moreover have "\<forall>k s. getitem (Suc k) h' self s =
                     (if s = t then Some (Inr val)
                      else time_fun (h ! self) (call_time_fun k h') s)"
    using getitem_after_setitem[OF assms s] by blast
  ultimately show "\<exists>h'. setitem h self t val = Inr h' \<and> length h' = length h \<and>
                  (\<forall>p. p \<noteq> self \<longrightarrow> h' ! p = h ! p) \<and>
                  probSpace (h' ! self) = probSpace (h ! self) \<and>
                  fs (h' ! self) = fs (h ! self) \<and>
                  (\<forall>k s. getitem (Suc k) h' self s =
                     (if s = t then Some (Inr val)
                      else time_fun (h ! self) (call_time_fun k h') s))"
    using s by blast
next
  assume "\<not> (isinstance_RV val \<or> is_scalar val)"
  then show "setitem h self t val = Inl InvalidOverrideValueError"
    by (simp add: setitem_def)
qed

text \<open>
  Witness of C1: overriding the process that is defined nowhere at time 2 with the
  scalar 5; afterwards it yields 5 at time 2 and still \<^verbatim>\<open>None\<close> at time 3.
\<close>

theorem setitem_updates_in_place_witness:
  "\<exists>h'. setitem example_heap 0 2 (Scalar 5) = Inr h' \<and> length h' = length example_heap \<and>
        getitem 1 h' 0 2 = Some (Inr (Scalar 5)) \<and> getitem 1 h' 0 3 = Some (Inr PNone)"
proof -
  have l: "(0::nat) < length example_heap" by (simp add: example_heap_def)
  have v: "isinstance_RV (Scalar 5 :: nat pyobj) \<or> is_scalar (Scalar 5 :: nat pyobj)" by simp
  from setitem_updates_in_place[OF l, of "Scalar 5" 2] v
  obtain h' where h': "setitem example_heap 0 2 (Scalar 5) = Inr h'"
    "length h' = length example_heap"
    "\<And>k s. getitem (Suc k) h' 0 s =
        (if s = 2 then Some (Inr (Scalar 5))
         else time_fun (example_heap ! 0) (call_time_fun k h') s)"
    by blast
  have "getitem 1 h' 0 2 = Some (Inr (Scalar 5))" using h'(3)[of 0 2] by simp
  moreover have "getitem 1 h' 0 3 = Some (Inr PNone)"
    using h'(3)[of 0 3] by (simp add: example_heap_def default_time_fun_def)
  ultimately show ?thesis using h'(1,2) by blast
qed

text \<open>
  Counterexample to C1 as stated (a new process is returned and the original one is left
  unchanged): overriding the time-index process at time 2 with 5 leaves the heap with as
  many processes as before, and the original process, which yielded 2 at time 2, now
  yields 5.
\<close>

theorem setitem_mutates_counterexample:
  "\<exists>h'. setitem example_heap 1 2 (Scalar 5) = Inr h' \<and>
     length h' = length example_heap \<and>
     getitem 1 example_heap 1 2 = Some (Inr (Scalar 2)) \<and>
     getitem 1 h' 1 2 = Some (Inr (Scalar 5))"
  by (simp add: setitem_def example_heap_def getitem_def)

text \<open>
  Claim C2. For all times \<open>t1 \<noteq> t2\<close> and values \<open>v1\<close>, \<open>v2\<close> that an override accepts,
  the override at \<open>t1\<close> with \<open>v1\<close> followed by the override at \<open>t2\<close> with \<open>v2\<close> yields a
  process that evaluates to \<open>v1\<close> at \<open>t1\<close> and to \<open>v2\<close> at \<open>t2\<close>; when the two overrides
  are at the same time, the evaluation there returns the value of the later one.
\<close>

theorem setitem_twice:
  assumes "self < length h"
    and "isinstance_RV v1 \<or> is_scalar v1" and "isinstance_RV v2 \<or> is_scalar v2"
  shows "\<exists>h1 h2. setitem h self t1 v1 = Inr h1 \<and> setitem h1 self t2 v2 = Inr h2 \<and>
           (t1 \<noteq> t2 \<longrightarrow> getitem (Suc k) h2 self t1 = Some (Inr v1) \<and>
                        getitem (Suc k) h2 self t2 = Some (Inr v2)) \<and>
           (t1 = t2 \<longrightarrow> getitem (Suc k) h2 self t1 = Some (Inr v2))"
proof -
  obtain h1 where h1: "setitem h self t1 v1 = Inr h1"
    using setitem_valid[OF assms(2)] by blast
  have l1: "self < length h1" using h1 assms(1,2) by (auto simp: setitem_def)
  have tf1: "time_fun (h1 ! self) lk s =
             (if s = t1 then Some (Inr v1) else time_fun (h ! self) lk s)" for lk s
    using h1 assms(1,2) by (auto simp: setitem_def)
  obtain h2 where h2: "setitem h1 self t2 v2 = Inr h2"
    using setitem_valid[OF assms(3)] by blast
  have g: "getitem (Suc k) h2 self s =
           (if s = t2 then Some (Inr v2) else time_fun (h1 ! self) (call_time_fun k h2) s)" for s
    by (rule getitem_after_setitem[OF l1 h2])
  have "t1 \<noteq> t2 \<longrightarrow> getitem (Suc k) h2 self t1 = Some (Inr v1)"
    using g[of t1] tf1 by simp
  moreover have "getitem (Suc k) h2 self t2 = Some (Inr v2)"
    using g[of t2] by simp
  ultimately show ?thesis using h1 h2 by blast
qed

text \<open>
  Witness of C2: the process that is defined nowhere, overridden at time 1 with the scalar
  10 and at time 2 with a random variable; and overridden twice at time 1.
\<close>

theorem setitem_twice_witness:
  "(\<exists>h1 h2. setitem example_heap 0 1 (Scalar 10) = Inr h1 \<and> setitem h1 0 2 (RVal 7) = Inr h2 \<and>
      getitem 1 h2 0 1 = Some (Inr (Scalar 10)) \<and> getitem 1 h2 0 2 = Some (Inr (RVal 7))) \<and>
   (\<exists>h1 h2. setitem example_heap 0 1 (Scalar 10) = Inr h1 \<and> setitem h1 0 1 (Scalar 20) = Inr h2 \<and>
      getitem 1 h2 0 1 = Some (Inr (Scalar 20)))"
proof -
  have l: "(0::nat) < length example_heap" by (simp add: example_heap_def)
  have v1: "isinstance_RV (Scalar 10 :: nat pyobj) \<or> is_scalar (Scalar 10 :: nat pyobj)"
    by simp
  have v2: "isinstance_RV (RVal 7 :: nat pyobj) \<or> is_scalar (RVal 7 :: nat pyobj)"
    by simp
  have v3: "isinstance_RV (Scalar 20 :: nat pyobj) \<or> is_scalar (Scalar 20 :: nat pyobj)"
    by simp
  from setitem_twice[OF l v1 v2, of 1 2 0] setitem_twice[OF l v1 v3, of 1 1 0]
  show ?thesis by simp
qed

lemma getitem_new_RandomProcess:
  "getitem (Suc k) (h @ [p]) (length h) t = time_fun p (call_time_fun k (h @ [p])) t"
  by (simp add: getitem_def)

text \<open>
  Claim C3. For two processes \<open>X\<close> (\<open>self\<close>) and \<open>Y\<close> (\<open>q\<close>) over compatible
  probability spaces, \<open>X + Y\<close> is a new process (\<open>z\<close>) whose evaluation at any time is the
  operator applied to the evaluation of \<open>X\<close> and the evaluation of \<open>Y\<close> at that time, in
  particular the sum of the two numbers when both yield numbers (an exception of either
  operand propagates, the left one first); over incompatible probability spaces the
  combination fails with \<open>IncompatibleSpaceError\<close>.
\<close>

theorem add_is_pointwise:
  assumes "self < length h" and "q < length h"
  shows "(isCompatibleWith ext (probSpace (h ! self)) (probSpace (h ! q)) \<longrightarrow>
            (\<exists>z h'. add ext h self (Process q) = Inr (z, h') \<and>
               z = length h \<and> h' = h @ [h' ! z] \<and>
               probSpace (h' ! z) = probSpace (h ! self) \<and> fs (h' ! z) = fs (h ! self) \<and>
               (\<forall>k t. getitem (Suc k) h' z t =
                  bind_res (getitem k h' self t) (\<lambda>a.
                  bind_res (getitem k h' q t) (\<lambda>b. Some (py_add ext a b)))) \<and>
               (\<forall>k t a b. getitem k h' self t = Some (Inr (Scalar a)) \<and>
                          getitem k h' q t = Some (Inr (Scalar b)) \<longrightarrow>
                          getitem (Suc k) h' z t = Some (Inr (Scalar (a + b)))))) \<and>
         (\<not> isCompatibleWith ext (probSpace (h ! self)) (probSpace (h ! q)) \<longrightarrow>
            add ext h self (Process q) = Inl IncompatibleSpaceError)"
proof (intro conjI impI)
  assume c: "isCompatibleWith ext (probSpace (h ! self)) (probSpace (h ! q))"
  define tf where
    "tf = (\<lambda>(lk::nat \<Rightarrow> real \<Rightarrow> _) t.
             bind_res (lk self t) (\<lambda>a. bind_res (lk q t) (\<lambda>b. Some (py_add ext a b))))"
  define h' where
    "h' = h @ [\<lparr>probSpace = probSpace (h ! self), fs = fs (h ! self), time_fun = tf\<rparr>]"
  have a: "add ext h self (Process q) = Inr (length h, h')"
    using c
    by (simp add: add_def operation_factory_def op_fun_def check_same_probSpace_def
        check_same_def new_RandomProcess_def h'_def tf_def)
  have n: "h' = h @ [h' ! length h]" "probSpace (h' ! length h) = probSpace (h ! self)"
    "fs (h' ! length h) = fs (h ! self)"
    by (simp_all add: h'_def)
  have g: "getitem (Suc k) h' (length h) t =
           bind_res (getitem k h' self t) (\<lambda>a.
           bind_res (getitem k h' q t) (\<lambda>b. Some (py_add ext a b)))" for k t
    unfolding h'_def getitem_new_RandomProcess by (simp add: tf_def getitem_def)
  have "getitem (Suc k) h' (length h) t = Some (Inr (Scalar (a + b)))"
    if "getitem k h' self t = Some (Inr (Scalar a)) \<and> getitem k h' q t = Some (Inr (Scalar b))"
    for k t a b
    using that by (simp add: g py_add_def)
  with a g n show "\<exists>z h'. add ext h self (Process q) = Inr (z, h') \<and>
               z = length h \<and> h' = h @ [h' ! z] \<and>
               probSpace (h' ! z) = probSpace (h ! self) \<and> fs (h' ! z) = fs (h ! self) \<and>
               (\<forall>k t. getitem (Suc k) h' z t =
                  bind_res (getitem k h' self t) (\<lambda>a.
                  bind_res (getitem k h' q t) (\<lambda>b. Some (py_add ext a b)))) \<and>
               (\<forall>k t a b. getitem k h' self t = Some (Inr (Scalar a)) \<and>
                          getitem k h' q t = Some (Inr (Scalar b)) \<longrightarrow>
                          getitem (Suc k) h' z t = Some (Inr (Scalar (a + b))))"
    by blast
next
  assume "\<not> isCompatibleWith ext (probSpace (h ! self)) (probSpace (h ! q))"
  then show "add ext h self (Process q) = Inl IncompatibleSpaceError"
    by (simp add: add_def operation_factory_def op_fun_def check_same_probSpace_def
        check_same_def)
qed

text \<open>
  Witness of C3: the time-index process plus the constant 2 evaluates to 5 at time 3; the
  time-index process plus the process on another probability space fails.
\<close>

theorem add_is_pointwise_witness:
  "(\<exists>z h'. add example_ext example_heap 1 (Process 4) = Inr (z, h') \<and>
      getitem 2 h' z 3 = Some (Inr (Scalar 5))) \<and>
   add example_ext example_heap 1 (Process 2) = Inl IncompatibleSpaceError"
proof -
  have l: "(1::nat) < length example_heap" "(4::nat) < length example_heap"
    "(2::nat) < length example_heap"
    by (simp_all add: example_heap_def)
  have c: "isCompatibleWith example_ext (probSpace (example_heap ! 1))
             (probSpace (example_heap ! 4))"
    by (simp add: example_ext_def example_heap_def)
  have n: "\<not> isCompatibleWith example_ext (probSpace (example_heap ! 1))
               (probSpace (example_heap ! 2))"
    by (simp add: example_ext_def example_heap_def)
  from add_is_pointwise[OF l(1) l(2), of example_ext] c
  obtain z h' where a: "add example_ext example_heap 1 (Process 4) = Inr (z, h')"
    and h': "h' = example_heap @ [h' ! z]"
    and s: "\<And>k t a b. getitem k h' 1 t = Some (Inr (Scalar a)) \<and>
                        getitem k h' 4 t = Some (Inr (Scalar b)) \<Longrightarrow>
                        getitem (Suc k) h' z t = Some (Inr (Scalar (a + b)))"
    by blast
  have "getitem 1 h' 1 3 = Some (Inr (Scalar 3))"
    by (subst h') (simp add: getitem_def example_heap_def)
  moreover have "getitem 1 h' 4 3 = Some (Inr (Scalar 2))"
    by (subst h') (simp add: getitem_def example_heap_def)
  ultimately have "getitem (Suc 1) h' z 3 = Some (Inr (Scalar (3 + 2)))"
    by (intro s) simp
  then have "getitem 2 h' z 3 = Some (Inr (Scalar 5))"
    by (simp add: numeral_2_eq_2)
  moreover from add_is_pointwise[OF l(1) l(3), of example_ext] n
  have "add example_ext example_heap 1 (Process 2) = Inl IncompatibleSpaceError" by blast
  ultimately show ?thesis using a by blast
qed

text \<open>
  Claim C4. The closure that one call to \<^verbatim>\<open>draw\<close> returns captures the one seed drawn
  by that call, and its result at a time does not depend on the state of the random
  generator at the moment it is called: evaluated twice at the same time, on the same
  heap, it returns identical values, because it resets the generator to its seed first.
\<close>

theorem draw_closure_deterministic:
  "fst (draw ext self g) = draw_f ext self (fst (randint ext g)) \<and>
   fst (draw ext self g) k h g1 t = fst (draw ext self g) k h g2 t"
  by (simp add: draw_def draw_f_unfold split: prod.splits)

text \<open>
  Witness of C4: a closure drawn from the process that yields a random variable, called
  with the generator in state 0 and in state 1000.
\<close>

theorem draw_closure_deterministic_witness:
  "fst (draw example_ext 2 41) 1 example_heap 0 3 = (Some (Inr (Scalar 48)), 42) \<and>
   fst (draw example_ext 2 41) 1 example_heap 1000 3 = (Some (Inr (Scalar 48)), 42)"
proof -
  have "fst (draw example_ext 2 41) 1 example_heap 0 3 = (Some (Inr (Scalar 48)), 42)"
    by (simp add: draw_def draw_f_unfold getitem_def example_ext_def example_heap_def)
  moreover have "fst (draw example_ext 2 41) 1 example_heap 0 3 =
                 fst (draw example_ext 2 41) 1 example_heap 1000 3"
    using draw_closure_deterministic[of example_ext 2 41 1 example_heap 0 3 1000]
    by (rule conjunct2)
  ultimately show ?thesis by (simp only:)
qed

text \<open>
  The closure reads the process when it is called: an override made after the draw is
  seen by the closure drawn before it.
\<close>

lemma draw_f_sees_later_override:
  "fst (draw_f example_ext 1 5 1 example_heap g 2) = Some (Inr (Scalar 2)) \<and>
   (\<exists>h'. setitem example_heap 1 2 (Scalar 5) = Inr h' \<and>
         fst (draw_f example_ext 1 5 1 h' g 2) = Some (Inr (Scalar 5)))"
  by (simp add: draw_f_unfold getitem_def setitem_def example_heap_def)

text \<open>
  Claim C5, as amended. Indexing a process at \<open>t\<close> returns what its function yields,
  \<^verbatim>\<open>None\<close> included, with no check. The closure that \<^verbatim>\<open>draw\<close> returns, evaluated at
  \<open>t\<close> where the function yields \<open>v\<close>, fails with \<open>UndefinedAtTimeError\<close> exactly when
  \<open>v\<close> is \<^verbatim>\<open>None\<close>, fails with \<open>InvalidProcessValueError\<close> exactly when \<open>v\<close> is not
  \<^verbatim>\<open>None\<close> and neither a scalar nor a random variable, returns \<open>v\<close> when \<open>v\<close> is a
  scalar, and returns a draw of \<open>v\<close>, made from the generator reset to the seed, when
  \<open>v\<close> is a random variable.
\<close>

theorem draw_f_outcome:
  assumes "getitem k h self t = Some (Inr v)"
  shows "(self < length h \<longrightarrow>
            getitem (Suc j) h self t = time_fun (h ! self) (call_time_fun j h) t) \<and>
         (fst (draw_f ext self sd k h g t) = Some (Inl UndefinedAtTimeError) \<longleftrightarrow> v = PNone) \<and>
         (fst (draw_f ext self sd k h g t) = Some (Inl InvalidProcessValueError) \<longleftrightarrow>
            v \<noteq> PNone \<and> \<not> is_scalar v \<and> \<not> isinstance_RV v) \<and>
         (is_scalar v \<longrightarrow> fst (draw_f ext self sd k h g t) = Some (Inr v)) \<and>
         (\<forall>rv. v = RVal rv \<longrightarrow>
            fst (draw_f ext self sd k h g t) = Some (Inr (fst (RV_draw ext rv (seed ext sd)))))"
  using assms by (cases v) (simp_all add: draw_f_unfold getitem_def)

text \<open>
  Witness of C5: the closure with seed 5 on the four kinds of process of the example
  heap.
\<close>

theorem draw_f_outcome_witness:
  "fst (draw_f example_ext 0 5 1 example_heap 0 3) = Some (Inl UndefinedAtTimeError) \<and>
   fst (draw_f example_ext 3 5 1 example_heap 0 3) = Some (Inl InvalidProcessValueError) \<and>
   fst (draw_f example_ext 1 5 1 example_heap 0 3) = Some (Inr (Scalar 3)) \<and>
   fst (draw_f example_ext 2 5 1 example_heap 0 3) = Some (Inr (Scalar 12))"
proof -
  have g: "getitem 1 example_heap 0 3 = Some (Inr PNone)"
    "getitem 1 example_heap 3 3 = Some (Inr (Other ''abc''))"
    "getitem 1 example_heap 1 3 = Some (Inr (Scalar 3))"
    "getitem 1 example_heap 2 3 = Some (Inr (RVal 7))"
    by (simp_all add: getitem_def example_heap_def default_time_fun_def)
  show ?thesis
    using draw_f_outcome[OF g(1), where ext = example_ext and sd = 5 and g = 0 and j = 0]
      draw_f_outcome[OF g(2), where ext = example_ext and sd = 5 and g = 0 and j = 0]
      draw_f_outcome[OF g(3), where ext = example_ext and sd = 5 and g = 0 and j = 0]
      draw_f_outcome[OF g(4), where ext = example_ext and sd = 5 and g = 0 and j = 0]
    by (simp add: example_ext_def)
qed

text \<open>
  Counterexample to C5 as stated: indexing the process that is defined nowhere returns
  \<^verbatim>\<open>None\<close> and raises nothing; and where the process function yields a random variable,
  the drawn closure returns the number 12 drawn from it, not the function's value.
\<close>

theorem evaluate_counterexample:
  "getitem 1 example_heap 0 3 = Some (Inr PNone) \<and>
   getitem 1 example_heap 2 3 = Some (Inr (RVal 7)) \<and>
   fst (draw_f example_ext 2 5 1 example_heap 0 3) = Some (Inr (Scalar 12))"
  by (simp add: draw_f_unfold getitem_def example_ext_def example_heap_def default_time_fun_def)

section \<open>Ensembles of results\<close>

lemma generate_maps:
  "\<forall>x\<in>set xs. f x = Inr (g x) \<Longrightarrow> generate f xs = Inr (map g xs)"
  by (induction xs) simp_all

text \<open>
  For a \<^verbatim>\<open>Results\<close> or an \<^verbatim>\<open>RVResults\<close>, \<^verbatim>\<open>apply\<close> returns an object of the same
  class with the function applied to each element, in order.
\<close>

lemma Results_apply_maps:
  assumes "class_of self \<noteq> RandomProcessResults"
    and "\<forall>x\<in>set (elems self). f x = Inr (g x)"
  shows "Results_apply self f =
         Inr \<lparr>class_of = class_of self, elems = map g (elems self), timeIndex = None\<rparr>"
  using assms(1) generate_maps[OF assms(2)]
  by (cases "class_of self") (simp_all add: Results_apply_def new_results_def)

text \<open>
  Claim C8 fails on the sample-path ensemble: \<^verbatim>\<open>apply\<close> calls the constructor of the
  class of \<open>self\<close> with one argument, and the constructor of
  \<^verbatim>\<open>RandomProcessResults\<close> requires two, so the call raises \<^verbatim>\<open>TypeError\<close> for every
  such ensemble and every function.
\<close>

theorem Results_apply_sample_paths_raises:
  "class_of self = RandomProcessResults \<Longrightarrow> Results_apply self f = Inl TypeError"
  by (simp add: Results_apply_def new_results_def)

text \<open>
  Witness of C8: the ensemble of two sample paths that \<^verbatim>\<open>sim\<close> builds from the
  time-index process.
\<close>

theorem Results_apply_sample_paths_raises_witness:
  "\<exists>paths g'. sim example_ext example_heap 1 (Suc (Suc 0)) 0 = (Inr paths, g') \<and>
     class_of paths = RandomProcessResults \<and> length (elems paths) = 2 \<and>
     Results_apply paths (\<lambda>x. Inr x) = Inl TypeError"
proof -
  obtain paths g' where s: "sim example_ext example_heap 1 (Suc (Suc 0)) 0 = (Inr paths, g')"
    and c: "class_of paths = RandomProcessResults" and l: "length (elems paths) = 2"
    by (simp add: sim_def draw_def new_results_def example_ext_def example_heap_def)
  from Results_apply_sample_paths_raises[OF c, of "\<lambda>x. Inr x"] s c l show ?thesis by blast
qed

lemma map_fst_increment: "map fst (increment y counts) = map fst counts"
  by (induction counts) (auto simp: increment_def)

lemma sum_increment:
  "distinct (map fst counts) \<Longrightarrow> y \<in> fst ` set counts \<Longrightarrow>
   sum_list (map snd (increment y counts)) = Suc (sum_list (map snd counts))"
proof (induction counts)
  case Nil
  then show ?case by simp
next
  case (Cons kc counts)
  obtain k c where kc: "kc = (k, c)" by (cases kc)
  show ?case
  proof (cases "k = y")
    case True
    then have "y \<notin> fst ` set counts" using Cons.prems(1) kc by auto
    then have "increment y counts = counts"
      unfolding increment_def by (intro map_idI) (auto simp: image_iff)
    then show ?thesis using True kc by (simp add: increment_def)
  next
    case False
    then have "y \<in> fst ` set counts" using Cons.prems(2) kc by auto
    with Cons.IH Cons.prems(1) have "sum_list (map snd (increment y counts)) = Suc (sum_list (map snd counts))"
      by simp
    then show ?thesis using False kc by (simp add: increment_def)
  qed
qed

lemma get_counts_loop_sum:
  "distinct (map fst counts) \<Longrightarrow> get_counts_loop str xs counts = Inr r \<Longrightarrow>
   sum_list (map snd r) = sum_list (map snd counts) + length xs"
proof (induction xs arbitrary: counts)
  case Nil
  then show ?case by simp
next
  case (Cons x xs)
  define y where "y = count_key str x"
  show ?case
  proof (cases "y \<in> fst ` set counts")
    case True
    with Cons.prems(2) have r: "get_counts_loop str xs (increment y counts) = Inr r"
      by (simp add: y_def Let_def split: if_splits)
    have "distinct (map fst (increment y counts))"
      using Cons.prems(1) by (simp add: map_fst_increment)
    from Cons.IH[OF this r] sum_increment[OF Cons.prems(1) True] show ?thesis by simp
  next
    case False
    with Cons.prems(2) have r: "get_counts_loop str xs (counts @ [(y, 1)]) = Inr r"
      by (simp add: y_def Let_def split: if_splits)
    have "distinct (map fst (counts @ [(y, 1)]))"
      using Cons.prems(1) False by (auto simp: image_iff)
    from Cons.IH[OF this r] show ?thesis by simp
  qed
qed

lemma get_counts_loop_returns_iff:
  "(\<exists>r. get_counts_loop str xs counts = Inr r) \<longleftrightarrow>
   list_all (\<lambda>x. hashable (count_key str x)) xs"
  by (induction xs arbitrary: counts) (simp_all add: Let_def)

lemma table_total_Table: "table_total (Table hash_map outcomes) = real (sum_list (map snd hash_map))"
proof -
  have a: "sum_list (map (snd \<circ> (\<lambda>(k, c). (k, real c))) hm) = real (sum_list (map snd hm))"
    for hm :: "(pyval \<times> nat) list"
    by (induction hm) auto
  have b: "sum_list (map (snd \<circ> (\<lambda>k. (k, 0::real))) ks) = 0" for ks :: "pyval list"
    by (induction ks) auto
  show ?thesis
    by (cases outcomes) (simp_all add: table_total_def Table_def a b)
qed

lemma fst_set_Table: "fst ` set (Table hash_map (Some ks)) = fst ` set hash_map \<union> set ks"
proof -
  have a: "fst ` set (map (\<lambda>(k, c). (k, real c)) hash_map) = fst ` set hash_map"
    by force
  have b: "fst ` set (map (\<lambda>k. (k, 0::real)) (filter P (remdups ks))) = {k \<in> set ks. P k}"
    for P
    by force
  show ?thesis
    unfolding Table_def by (simp only: set_append image_Un a b option.case) auto
qed

lemma table_total_truediv:
  "Table_truediv tbl n = Inr tbl' \<Longrightarrow> table_total tbl' = table_total tbl / real n"
proof -
  have "sum_list (map snd (map (\<lambda>(k, v). (k, v / real n)) tbl)) = sum_list (map snd tbl) / real n"
    by (induction tbl) (auto simp: add_divide_distrib)
  then show "Table_truediv tbl n = Inr tbl' \<Longrightarrow> table_total tbl' = table_total tbl / real n"
    by (auto simp: Table_truediv_def table_total_def split: if_splits)
qed

lemma map_of_increment:
  "map_of (increment y counts) k =
     (if k = y then map_option Suc (map_of counts y) else map_of counts k)"
  by (induction counts) (auto simp: increment_def)

lemma count_of_increment:
  "y \<in> fst ` set counts \<Longrightarrow>
   count_of (increment y counts) k = (if k = y then Suc (count_of counts y) else count_of counts k)"
  by (auto simp: count_of_def map_of_increment map_of_eq_None_iff split: option.splits)

lemma count_of_append_new:
  "y \<notin> fst ` set counts \<Longrightarrow>
   count_of (counts @ [(y, 1)]) k = (if k = y then Suc (count_of counts y) else count_of counts k)"
proof -
  assume "y \<notin> fst ` set counts"
  then have n: "map_of counts y = None" by (simp add: map_of_eq_None_iff)
  show ?thesis
  proof (cases "k = y")
    case True
    with n show ?thesis by (simp add: count_of_def map_add_def)
  next
    case False
    then show ?thesis by (simp add: count_of_def map_add_def split: option.splits)
  qed
qed

lemma get_counts_loop_counts:
  "distinct (map fst counts) \<Longrightarrow> get_counts_loop str xs counts = Inr r \<Longrightarrow>
   distinct (map fst r) \<and> (\<forall>k. count_of r k = count_of counts k + occurrences str xs k) \<and>
   fst ` set r = fst ` set counts \<union> count_key str ` set xs"
proof (induction xs arbitrary: counts)
  case Nil
  then show ?case by (simp add: occurrences_def)
next
  case (Cons x xs)
  define y where "y = count_key str x"
  show ?case
  proof (cases "y \<in> fst ` set counts")
    case True
    with Cons.prems(2) have r: "get_counts_loop str xs (increment y counts) = Inr r"
      by (simp add: y_def Let_def split: if_splits)
    have d: "distinct (map fst (increment y counts))"
      using Cons.prems(1) by (simp add: map_fst_increment)
    have k: "fst ` set (increment y counts) = fst ` set counts"
      using map_fst_increment[of y counts] by (metis list.set_map)
    from Cons.IH[OF d r] count_of_increment[OF True] True k show ?thesis
      by (auto simp: occurrences_def y_def)
  next
    case False
    with Cons.prems(2) have r: "get_counts_loop str xs (counts @ [(y, 1)]) = Inr r"
      by (simp add: y_def Let_def split: if_splits)
    have d: "distinct (map fst (counts @ [(y, 1)]))"
      using Cons.prems(1) False by (auto simp: image_iff)
    from Cons.IH[OF d r] count_of_append_new[OF False] show ?thesis
      by (auto simp: occurrences_def y_def)
  qed
qed

lemma get_counts_entries:
  assumes "get_counts_loop str xs [] = Inr r"
  shows "distinct (map fst r)"
    and "(k, c) \<in> set r \<Longrightarrow> c = occurrences str xs k"
    and "k \<notin> fst ` set r \<Longrightarrow> occurrences str xs k = 0"
proof -
  from get_counts_loop_counts[OF _ assms]
  have d: "distinct (map fst r)" and c: "\<And>k. count_of r k = occurrences str xs k"
    by (simp_all add: count_of_def)
  show "distinct (map fst r)" by (rule d)
  show "c = occurrences str xs k" if "(k, c) \<in> set r"
    using that d c[of k] by (simp add: count_of_def)
  show "occurrences str xs k = 0" if "k \<notin> fst ` set r"
    using that c[of k] by (simp add: count_of_def map_of_eq_None_iff[symmetric])
qed

lemma tabulate_True_entries:
  assumes "tabulate str self outcomes True = Inr tbl" and "(k, v) \<in> set tbl"
  shows "v = real (occurrences str (elems self) k) / real (length (elems self))"
proof -
  define n where "n = length (elems self)"
  from assms(1) obtain counts where c: "get_counts_loop str (elems self) [] = Inr counts"
    and d: "Table_truediv (Table counts outcomes) n = Inr tbl"
    by (auto simp: tabulate_def get_counts_def n_def split: sum.splits)
  from d have tbl: "tbl = map (\<lambda>(k, v). (k, v / real n)) (Table counts outcomes)"
    by (auto simp: Table_truediv_def split: if_splits)
  with assms(2) obtain w where w: "(k, w) \<in> set (Table counts outcomes)" "v = w / real n"
    by auto
  from w(1) have "w = real (occurrences str (elems self) k)"
  proof (cases outcomes)
    case None
    with w(1) obtain c' where "(k, c') \<in> set counts" "w = real c'"
      by (auto simp: Table_def)
    with get_counts_entries(2)[OF c] show ?thesis by simp
  next
    case (Some ks)
    with w(1) consider c' where "(k, c') \<in> set counts" "w = real c'"
      | "k \<notin> fst ` set counts" "w = 0"
      by (auto simp: Table_def)
    then show ?thesis
    proof cases
      case 1
      with get_counts_entries(2)[OF c] show ?thesis by simp
    next
      case 2
      with get_counts_entries(3)[OF c] show ?thesis by simp
    qed
  qed
  with w(2) show ?thesis by (simp add: n_def)
qed

lemma is_atom_hashable: "is_atom x \<Longrightarrow> hashable x \<and> is_hashable x"
  by (cases x) simp_all

lemma list_all_is_atom:
  "list_all is_atom xs \<Longrightarrow> list_all hashable xs \<and> list_all is_hashable xs"
  by (induction xs) (simp_all add: is_atom_hashable)

lemma data_model_outcome_hashable:
  "data_model_outcome x \<Longrightarrow> hashable (count_key str x)"
  by (cases x) (simp_all add: count_key_def list_all_is_atom)

lemma data_model_outcomes_hashable:
  "list_all data_model_outcome xs \<Longrightarrow> list_all (\<lambda>x. hashable (count_key str x)) xs"
  by (induction xs) (simp_all add: data_model_outcome_hashable)

lemma tabulate_example:
  "tabulate example_str example_results (Some [Num 3]) True =
     Inr [(Num 1, 1 / 2), (Num 2, 1 / 4), (Tuple [Num 1], 1 / 4), (Num 3, 0)]"
  by (simp add: tabulate_def get_counts_def example_results_def count_key_def increment_def
      Table_def Table_truediv_def Let_def)

text \<open>
  Claim C9. For every non-empty ensemble of length \<open>n\<close>, the table that \<^verbatim>\<open>tabulate\<close>
  returns with \<^verbatim>\<open>normalize=True\<close> holds, for each of its outcomes, the number of
  elements counted under it divided by \<open>n\<close>; it holds every outcome of a supplied list
  of outcomes, those absent from the ensemble with the value 0; and its values sum to 1
  (exactly, with exact division). The table is returned exactly when every outcome is
  counted under a key that can be hashed, which is so for every ensemble of outcomes of
  the data model.
\<close>

theorem tabulate_normalize_sums_to_one:
  assumes "elems self \<noteq> []"
  shows "(\<forall>tbl. tabulate str self outcomes True = Inr tbl \<longrightarrow>
            (\<forall>k v. (k, v) \<in> set tbl \<longrightarrow>
               v = real (occurrences str (elems self) k) / real (length (elems self))) \<and>
            (\<forall>ks k. outcomes = Some ks \<and> k \<in> set ks \<longrightarrow> k \<in> fst ` set tbl) \<and>
            table_total tbl = 1) \<and>
         ((\<exists>tbl. tabulate str self outcomes True = Inr tbl) \<longleftrightarrow>
            list_all (\<lambda>x. hashable (count_key str x)) (elems self)) \<and>
         (list_all data_model_outcome (elems self) \<longrightarrow>
            (\<exists>tbl. tabulate str self outcomes True = Inr tbl))"
proof (intro conjI)
  show "\<forall>tbl. tabulate str self outcomes True = Inr tbl \<longrightarrow>
            (\<forall>k v. (k, v) \<in> set tbl \<longrightarrow>
               v = real (occurrences str (elems self) k) / real (length (elems self))) \<and>
            (\<forall>ks k. outcomes = Some ks \<and> k \<in> set ks \<longrightarrow> k \<in> fst ` set tbl) \<and>
            table_total tbl = 1"
  proof (intro allI impI conjI)
    fix tbl k v
    assume "tabulate str self outcomes True = Inr tbl" and "(k, v) \<in> set tbl"
    then show "v = real (occurrences str (elems self) k) / real (length (elems self))"
      by (rule tabulate_True_entries)
  next
    fix tbl ks k
    assume t: "tabulate str self outcomes True = Inr tbl"
      and o: "outcomes = Some ks \<and> k \<in> set ks"
    from t obtain counts where
      d: "Table_truediv (Table counts outcomes) (length (elems self)) = Inr tbl"
      by (auto simp: tabulate_def split: sum.splits)
    then have "fst ` set tbl = fst ` set (Table counts outcomes)"
      by (force simp: Table_truediv_def split: if_splits)
    moreover have "k \<in> fst ` set (Table counts outcomes)"
      using o by (simp add: fst_set_Table)
    ultimately show "k \<in> fst ` set tbl" by simp
  next
    fix tbl assume t: "tabulate str self outcomes True = Inr tbl"
    then obtain counts where c: "get_counts_loop str (elems self) [] = Inr counts"
      and d: "Table_truediv (Table counts outcomes) (length (elems self)) = Inr tbl"
      by (auto simp: tabulate_def get_counts_def split: sum.splits)
    from get_counts_loop_sum[OF _ c] have "sum_list (map snd counts) = length (elems self)"
      by simp
    with table_total_truediv[OF d] table_total_Table[of counts outcomes] assms
    show "table_total tbl = 1" by simp
  qed
next
  have n: "length (elems self) \<noteq> 0" using assms by simp
  have "(\<exists>tbl. tabulate str self outcomes True = Inr tbl) \<longleftrightarrow>
        (\<exists>r. get_counts_loop str (elems self) [] = Inr r)"
    using n by (auto simp: tabulate_def get_counts_def Table_truediv_def split: sum.splits)
  then show iff: "(\<exists>tbl. tabulate str self outcomes True = Inr tbl) \<longleftrightarrow>
            list_all (\<lambda>x. hashable (count_key str x)) (elems self)"
    by (simp add: get_counts_loop_returns_iff)
  show "list_all data_model_outcome (elems self) \<longrightarrow>
          (\<exists>tbl. tabulate str self outcomes True = Inr tbl)"
    using iff data_model_outcomes_hashable[of "elems self" str] by blast
qed

text \<open>
  Witness of C9: four outcomes, two of them equal and one a list, tabulated with the
  absent outcome 3.
\<close>

theorem tabulate_normalize_sums_to_one_witness:
  "elems example_results \<noteq> [] \<and>
   tabulate example_str example_results (Some [Num 3]) True =
     Inr [(Num 1, 1 / 2), (Num 2, 1 / 4), (Tuple [Num 1], 1 / 4), (Num 3, 0)] \<and>
   table_total [(Num 1, 1 / 2), (Num 2, 1 / 4), (Tuple [Num 1], 1 / 4), (Num 3, 0)] = 1"
proof -
  have n: "elems example_results \<noteq> []" by (simp add: example_results_def)
  from tabulate_normalize_sums_to_one[OF n, of example_str "Some [Num 3]"] tabulate_example
  have "table_total [(Num 1, 1 / 2), (Num 2, 1 / 4), (Tuple [Num 1], 1 / 4), (Num 3, 0)] = 1"
    by blast
  with n tabulate_example show ?thesis by blast
qed

text \<open>
  An outcome that passes \<^verbatim>\<open>is_hashable\<close> and cannot be hashed, a tuple that holds a
  list, makes \<^verbatim>\<open>_get_counts\<close> raise.
\<close>

lemma tabulate_tuple_with_list_raises:
  "tabulate str tuple_with_list outcomes normalise = Inl TypeError"
  by (simp add: tabulate_def get_counts_def tuple_with_list_def count_key_def)

lemma get_loop_enumerate:
  "get_loop (enumerate n xs) i =
     (if int n \<le> i \<and> i < int n + int (length xs) then Some (xs ! nat (i - int n)) else None)"
proof (induction xs arbitrary: n)
  case Nil
  then show ?case by simp
next
  case (Cons x xs)
  show ?case
  proof (cases "int n = i")
    case True
    then show ?thesis by simp
  next
    case False
    have "nat (i - int n) = Suc (nat (i - int (Suc n)))" if "int (Suc n) \<le> i"
      using that by simp
    then show ?thesis using False Cons.IH[of "Suc n"] by auto
  qed
qed

text \<open>
  Claim C10. For every ensemble and every integer \<open>i\<close> that is negative or at least the
  length of the ensemble, \<^verbatim>\<open>get(i)\<close> returns \<^verbatim>\<open>None\<close>; for \<open>0 \<le> i < length\<close> it
  returns the \<open>i\<close>-th element.
\<close>

theorem get_returns_element_or_None:
  "(i < 0 \<or> int (length (elems self)) \<le> i \<longrightarrow> get self i = None) \<and>
   (0 \<le> i \<and> i < int (length (elems self)) \<longrightarrow> get self i = Some (elems self ! nat i))"
  by (simp add: get_def get_loop_enumerate)

text \<open>
  Witness of C10: the ensemble 10, 20, 30 at the indices \<open>-1\<close>, 3 and 1.
\<close>

theorem get_returns_element_or_None_witness:
  "get example_numbers (- 1) = None \<and> get example_numbers 3 = None \<and>
   get example_numbers 1 = Some 20"
  using get_returns_element_or_None[of "- 1" example_numbers]
    get_returns_element_or_None[of 3 example_numbers]
    get_returns_element_or_None[of 1 example_numbers]
  by (simp add: example_numbers_def)

end
